theory Spec2Isabelle
  imports Main "HOL-Library.Word"
begin

section \<open>Evernote export to Markdown: a shallow embedding of convert.py\<close>

text \<open>
  The program reads an exported note archive (XML), stores every attachment in a media
  folder under a name built from its MD5 digest, and converts each note's ENML content to
  Markdown with a subclass of html2text's converter. This theory embeds the three pieces
  of \<^verbatim>\<open>convert.py\<close>: the generator \<^verbatim>\<open>iterate_emex\<close>, the consumer loop of
  \<^verbatim>\<open>process_emex\<close>, and the class \<^verbatim>\<open>ContentParser\<close>.

  Python exceptions are values of the type \<open>exn\<close>. Libraries the program calls but does
  not contain (MD5, libmagic, slugify, the tokeniser and the generic grammar of
  html2text) are fields of the record \<open>env\<close>; the filesystem and the logging module are
  explicit state.
\<close>

subsection \<open>Python values\<close>

type_synonym byte = "8 word"
type_synonym bytes = "byte list"

text \<open>
  The exceptions that the modelled code can raise. \<open>KeyError\<close> carries the missing key,
  as Python's does (a key is a string or \<^verbatim>\<open>None\<close>). The design's names for them are:
  \<^verbatim>\<open>UnsupportedMediaType\<close> is the \<open>KeyError\<close> of \<^verbatim>\<open>EXTENSIONS[mime_type]\<close>,
  \<^verbatim>\<open>UnknownResourceReference\<close> is the \<open>KeyError\<close> of \<^verbatim>\<open>self.media_paths[...]\<close>.
\<close>

datatype exn =
    KeyError "string option"
  | BinasciiError
  | ValueError
  | UnboundLocalError string
  | ParseError
  | LibraryError string

datatype level = INFO | ERROR

type_synonym log_record = "level \<times> string"

text \<open>A Python value that is a string or \<^verbatim>\<open>None\<close>; \<open>format_value\<close> is its rendering
  in an f-string, \<open>truthy\<close> its truth value.\<close>

type_synonym str_or_none = "string option"

definition format_value :: "str_or_none \<Rightarrow> string" where
  "format_value v = (case v of None \<Rightarrow> ''None'' | Some s \<Rightarrow> s)"

definition truthy :: "str_or_none \<Rightarrow> bool" where
  "truthy v = (case v of None \<Rightarrow> False | Some s \<Rightarrow> s \<noteq> [])"

text \<open>\<^verbatim>\<open>dict(attrs)\<close>: of two pairs with one key the later one wins.
  \<^verbatim>\<open>d.get(k, default)\<close> and \<^verbatim>\<open>d[k]\<close> follow.\<close>

type_synonym attrs = "(string \<times> str_or_none) list"

definition dict :: "attrs \<Rightarrow> (string \<rightharpoonup> str_or_none)" where
  "dict attrs = map_of (rev attrs)"

definition dict_get :: "(string \<rightharpoonup> str_or_none) \<Rightarrow> string \<Rightarrow> str_or_none \<Rightarrow> str_or_none" where
  "dict_get d k dflt = (case d k of None \<Rightarrow> dflt | Some v \<Rightarrow> v)"

definition dict_item :: "(string \<rightharpoonup> str_or_none) \<Rightarrow> string \<Rightarrow> exn + str_or_none" where
  "dict_item d k = (case d k of None \<Rightarrow> Inl (KeyError (Some k)) | Some v \<Rightarrow> Inr v)"

subsection \<open>The data model\<close>

datatype Note = Note (title: str_or_none) (content: string)

datatype Resource = Resource (data: bytes)

text \<open>The MIME type to file extension mapping.\<close>

definition EXTENSIONS :: "(string \<times> string) list" where
  "EXTENSIONS =
    [(''application/x-empty'', ''txt''),
     (''image/gif'', ''gif''),
     (''image/jpeg'', ''jpeg''),
     (''image/png'', ''png''),
     (''image/svg'', ''svg''),
     (''image/svg+xml'', ''svg''),
     (''image/x-ms-bmp'', ''bmp''),
     (''application/pdf'', ''pdf'')]"

definition EXTENSIONS_item :: "string \<Rightarrow> exn + string" where
  "EXTENSIONS_item mime_type =
    (case map_of EXTENSIONS mime_type of
       None \<Rightarrow> Inl (KeyError (Some mime_type))
     | Some ext \<Rightarrow> Inr ext)"

subsection \<open>The digest in hexadecimal\<close>

text \<open>\<^verbatim>\<open>md5(data).hexdigest()\<close>: MD5 itself is a parameter that returns the 128-bit
  digest; the hexadecimal rendering, 32 lower-case digits with the most significant
  first, is computed here.\<close>

definition hex_digit :: "nat \<Rightarrow> char" where
  "hex_digit n = ''0123456789abcdef'' ! (n mod 16)"

primrec hex_digits :: "nat \<Rightarrow> 128 word \<Rightarrow> string" where
  "hex_digits 0 w = []"
| "hex_digits (Suc n) w = hex_digits n (drop_bit 4 w) @ [hex_digit (unat (take_bit 4 w))]"

definition hexdigest :: "128 word \<Rightarrow> string" where
  "hexdigest w = hex_digits 32 w"

subsection \<open>Paths\<close>

text \<open>\<^verbatim>\<open>os.extsep\<close> is a dot. \<open>path_join p q\<close> is \<^verbatim>\<open>str(Path(p) / q)\<close> on a POSIX
  system for the operands the program joins: \<open>q\<close> is a single file or directory name.\<close>

definition extsep :: string where
  "extsep = ''.''"

definition path_join :: "string \<Rightarrow> string \<Rightarrow> string" where
  "path_join p q = p @ ''/'' @ q"

definition relative_media_path :: string where
  "relative_media_path = ''media''"

subsection \<open>Base64\<close>

text \<open>
  \<^verbatim>\<open>base64.b64decode(s)\<close> with its default \<^verbatim>\<open>validate=False\<close>, as CPython 3.11
  implements it (\<^verbatim>\<open>binascii.a2b_base64\<close>, not strict): a string with a character
  outside ASCII is a \<^verbatim>\<open>ValueError\<close>; characters outside the alphabet are skipped;
  padding that completes a quad ends the decoding; data characters left over in an
  incomplete quad at the end are a \<^verbatim>\<open>binascii.Error\<close>.
\<close>

definition table_a2b_base64 :: "char \<Rightarrow> byte option" where
  "table_a2b_base64 c =
    (let n = (of_char c :: nat) in
     if 65 \<le> n \<and> n \<le> 90 then Some (of_nat (n - 65))
     else if 97 \<le> n \<and> n \<le> 122 then Some (of_nat (n - 97 + 26))
     else if 48 \<le> n \<and> n \<le> 57 then Some (of_nat (n - 48 + 52))
     else if n = 43 then Some 62
     else if n = 47 then Some 63
     else None)"

fun a2b_base64 :: "string \<Rightarrow> nat \<Rightarrow> byte \<Rightarrow> nat \<Rightarrow> bytes \<Rightarrow> exn + bytes" where
  "a2b_base64 [] quad_pos leftchar pads bin_data =
    (if quad_pos \<noteq> 0 then Inl BinasciiError else Inr bin_data)"
| "a2b_base64 (c # cs) quad_pos leftchar pads bin_data =
    (if c = CHR ''='' then
       (if quad_pos \<ge> 2 \<and> quad_pos + (pads + 1) \<ge> 4 then Inr bin_data
        else a2b_base64 cs quad_pos leftchar (if quad_pos \<ge> 2 then pads + 1 else pads) bin_data)
     else
       (case table_a2b_base64 c of
          None \<Rightarrow> a2b_base64 cs quad_pos leftchar pads bin_data
        | Some this_ch \<Rightarrow>
            (if quad_pos = 0 then a2b_base64 cs 1 this_ch 0 bin_data
             else if quad_pos = 1 then
               a2b_base64 cs 2 (and this_ch 0x0f) 0
                 (bin_data @ [or (push_bit 2 leftchar) (drop_bit 4 this_ch)])
             else if quad_pos = 2 then
               a2b_base64 cs 3 (and this_ch 0x03) 0
                 (bin_data @ [or (push_bit 4 leftchar) (drop_bit 2 this_ch)])
             else
               a2b_base64 cs 0 0 0
                 (bin_data @ [or (push_bit 6 leftchar) this_ch]))))"

definition b64decode :: "string \<Rightarrow> exn + bytes" where
  "b64decode s =
    (if \<exists>c \<in> set s. (of_char c :: nat) \<ge> 128 then Inl ValueError
     else a2b_base64 s 0 0 0 [])"

subsection \<open>External collaborators\<close>

text \<open>
  What the program calls and does not contain. \<open>'p\<close> is the state of the html2text
  converter that \<^verbatim>\<open>ContentParser\<close> inherits (its output buffer and its flags), \<open>'t\<close>
  the markup events that \<^verbatim>\<open>ContentParser\<close> does not override (text, comments,
  character references).
  \<^item> \<open>md5\<close>: the digest of \<^verbatim>\<open>hashlib.md5\<close>;
  \<^item> \<open>from_buffer\<close>: \<^verbatim>\<open>magic.from_buffer(data, mime=True)\<close>;
  \<^item> \<open>slugify\<close>: \<^verbatim>\<open>slugify.slugify\<close>, applied to a title that may be \<^verbatim>\<open>None\<close>;
  \<^item> \<open>output_path\<close>: the target directory;
  \<^item> \<open>tokens\<close>: the events that \<^verbatim>\<open>HTMLParser.feed\<close> produces from a content string
    (which may be \<^verbatim>\<open>None\<close>, and then is an error of the library);
  \<^item> \<open>parser_init\<close>, \<open>o_emit\<close>, \<open>super_handle_starttag\<close>, \<open>super_handle_endtag\<close>,
    \<open>super_handle_other\<close>, \<open>finish\<close>: the inherited converter, namely its initial
    state, its output method \<^verbatim>\<open>self.o\<close>, its generic handlers, and the text it
    returns at the end of \<^verbatim>\<open>handle\<close>.
\<close>

datatype 't token =
    StartTag string attrs
  | EndTag string
  | MarkupError string
  | OtherEvent 't

record ('p, 't) env =
  md5 :: "bytes \<Rightarrow> 128 word"
  from_buffer :: "bytes \<Rightarrow> string"
  slugify :: "str_or_none \<Rightarrow> exn + string"
  output_path :: string
  tokens :: "str_or_none \<Rightarrow> exn + 't token list"
  parser_init :: 'p
  o_emit :: "string \<Rightarrow> 'p \<Rightarrow> 'p"
  super_handle_starttag :: "string \<Rightarrow> attrs \<Rightarrow> 'p \<Rightarrow> exn + 'p"
  super_handle_endtag :: "string \<Rightarrow> 'p \<Rightarrow> exn + 'p"
  super_handle_other :: "'t \<Rightarrow> 'p \<Rightarrow> exn + 'p"
  finish :: "'p \<Rightarrow> string"

subsection \<open>ContentParser\<close>

text \<open>
  A handler takes the mapping from digests to relative paths that the parser was built
  with, the converter's state and the log, and returns the new converter state or the
  exception raised, with the log as it then is.
\<close>

type_synonym media_paths = "string \<rightharpoonup> string"

definition media_paths_item :: "media_paths \<Rightarrow> str_or_none \<Rightarrow> exn + string" where
  "media_paths_item mp k =
    (case k of
       None \<Rightarrow> Inl (KeyError None)
     | Some h \<Rightarrow> (case mp h of None \<Rightarrow> Inl (KeyError (Some h)) | Some path \<Rightarrow> Inr path))"

text \<open>The f-string of the \<^verbatim>\<open>en-media\<close> branch: its first field is evaluated before
  its second, and the text is built only when both are there.\<close>

definition en_media_text :: "media_paths \<Rightarrow> attrs \<Rightarrow> exn + string" where
  "en_media_text mp attrs =
    (let attrs_dict = dict attrs;
         title = dict_get attrs_dict ''title'' (Some [])
     in case dict_item attrs_dict ''hash'' of
          Inl e \<Rightarrow> Inl e
        | Inr h \<Rightarrow>
            (case media_paths_item mp h of
               Inl e \<Rightarrow> Inl e
             | Inr path \<Rightarrow> Inr (''!['' @ format_value title @ '']('' @ path @ '')'')))"

definition handle_starttag ::
  "('p, 't) env \<Rightarrow> media_paths \<Rightarrow> string \<Rightarrow> attrs \<Rightarrow> 'p \<Rightarrow> log_record list
    \<Rightarrow> (exn + 'p) \<times> log_record list" where
  "handle_starttag env mp tag attrs p lg =
    (if tag = ''en-note'' then (Inr p, lg)
     else if tag = ''en-media'' then
       (case en_media_text mp attrs of
          Inl e \<Rightarrow> (Inl e, lg)
        | Inr link \<Rightarrow> (Inr (o_emit env link p), lg))
     else if tag = ''en-crypt'' then
       (Inr p, lg @ [(ERROR, ''<en-crypt> is not implemented.'')])
     else if tag = ''en-todo'' then
       (Inr (o_emit env (if truthy (dict_get (dict attrs) ''checked'' None) then ''[x]'' else ''[ ]'') p), lg)
     else (super_handle_starttag env tag attrs p, lg))"

definition handle_endtag ::
  "('p, 't) env \<Rightarrow> string \<Rightarrow> 'p \<Rightarrow> log_record list \<Rightarrow> (exn + 'p) \<times> log_record list" where
  "handle_endtag env tag p lg =
    (if tag \<in> set [''en-note'', ''en-media'', ''en-crypt'', ''en-todo''] then (Inr p, lg)
     else (super_handle_endtag env tag p, lg))"

definition error :: "string \<Rightarrow> log_record list \<Rightarrow> log_record list" where
  "error message lg = lg @ [(ERROR, ''HTML parsing error: '' @ message)]"

text \<open>One event of the content's markup, dispatched as \<^verbatim>\<open>HTMLParser\<close> does.\<close>

fun dispatch ::
  "('p, 't) env \<Rightarrow> media_paths \<Rightarrow> 't token \<Rightarrow> 'p \<Rightarrow> log_record list
    \<Rightarrow> (exn + 'p) \<times> log_record list" where
  "dispatch env mp (StartTag tag attrs) p lg = handle_starttag env mp tag attrs p lg"
| "dispatch env mp (EndTag tag) p lg = handle_endtag env tag p lg"
| "dispatch env mp (MarkupError message) p lg = (Inr p, error message lg)"
| "dispatch env mp (OtherEvent t) p lg = (super_handle_other env t p, lg)"

text \<open>\<^verbatim>\<open>feed\<close>: the events in order; the first exception ends it.\<close>

fun feed ::
  "('p, 't) env \<Rightarrow> media_paths \<Rightarrow> 't token list \<Rightarrow> 'p \<Rightarrow> log_record list
    \<Rightarrow> (exn + 'p) \<times> log_record list" where
  "feed env mp [] p lg = (Inr p, lg)"
| "feed env mp (t # ts) p lg =
    (case dispatch env mp t p lg of
       (Inl e, lg') \<Rightarrow> (Inl e, lg')
     | (Inr p', lg') \<Rightarrow> feed env mp ts p' lg')"

text \<open>\<^verbatim>\<open>ContentParser(media_paths).handle(content)\<close>.\<close>

definition handle ::
  "('p, 't) env \<Rightarrow> media_paths \<Rightarrow> str_or_none \<Rightarrow> log_record list
    \<Rightarrow> (exn + string) \<times> log_record list" where
  "handle env mp markup lg =
    (case tokens env markup of
       Inl e \<Rightarrow> (Inl e, lg)
     | Inr ts \<Rightarrow>
         (case feed env mp ts (parser_init env) lg of
            (Inl e, lg') \<Rightarrow> (Inl e, lg')
          | (Inr p, lg') \<Rightarrow> (Inr (finish env p), lg')))"

subsection \<open>iterate_emex\<close>

text \<open>
  \<^verbatim>\<open>ElementTree.iterparse\<close> delivers the elements of the archive as they close, in
  document order: an element nested in another closes before it. An event is the tag
  and the text of the element that closed, or the point where the archive stops being
  well-formed and \<^verbatim>\<open>iterparse\<close> raises.

  The generator's local variables \<^verbatim>\<open>title\<close>, \<^verbatim>\<open>content\<close> and \<^verbatim>\<open>data\<close> are
  unbound (\<open>None\<close>) until their first assignment; the text of an element may itself be
  \<^verbatim>\<open>None\<close>.
\<close>

datatype event = End string str_or_none | Malformed

record locals =
  title_var :: "str_or_none option"
  content_var :: "str_or_none option"
  data_var :: "bytes option"

definition unbound :: locals where
  "unbound = \<lparr>title_var = None, content_var = None, data_var = None\<rparr>"

text \<open>\<^verbatim>\<open>element.text or ''\<close>.\<close>

definition text_or_empty :: "str_or_none \<Rightarrow> string" where
  "text_or_empty v = (if truthy v then format_value v else [])"

text \<open>
  The body of the generator's loop for one event. It reads the mapping \<open>mp\<close> as the
  consumer has left it, and returns what it yields for this event, if anything, with the
  local variables as they then are.
\<close>

fun iterate_emex ::
  "('p, 't) env \<Rightarrow> media_paths \<Rightarrow> event \<Rightarrow> locals \<Rightarrow> log_record list
    \<Rightarrow> (exn + (Note option \<times> Resource option) option \<times> locals) \<times> log_record list" where
  "iterate_emex env mp Malformed l lg = (Inl ParseError, lg)"
| "iterate_emex env mp (End tag text) l lg =
    (if tag = ''title'' then (Inr (None, l\<lparr>title_var := Some text\<rparr>), lg)
     else if tag = ''content'' then (Inr (None, l\<lparr>content_var := Some text\<rparr>), lg)
     else if tag = ''data'' then
       (case b64decode (text_or_empty text) of
          Inl e \<Rightarrow> (Inl e, lg)
        | Inr d \<Rightarrow> (Inr (None, l\<lparr>data_var := Some d\<rparr>), lg))
     else if tag = ''resource'' then
       (case data_var l of
          None \<Rightarrow> (Inl (UnboundLocalError ''data''), lg)
        | Some d \<Rightarrow> (Inr (Some (None, Some (Resource d)), l), lg))
     else if tag = ''note'' then
       (case title_var l of
          None \<Rightarrow> (Inl (UnboundLocalError ''title''), lg)
        | Some t \<Rightarrow>
            (case content_var l of
               None \<Rightarrow> (Inl (UnboundLocalError ''content''), lg)
             | Some c \<Rightarrow>
                 (case handle env mp c lg of
                    (Inl e, lg') \<Rightarrow> (Inl e, lg')
                  | (Inr markdown, lg') \<Rightarrow> (Inr (Some (Some (Note t markdown), None), l), lg'))))
     else (Inr (None, l), lg))"

subsection \<open>process_emex\<close>

text \<open>
  The state of a run: the mapping from digests to relative paths, the files that exist
  (by path, with their contents), the writes done so far in order, and the records
  handed to the logging module. A function of the run returns the exception raised, if
  any, and the state as it is then: what was written stays written.
\<close>

datatype contents = Text string | Bytes bytes

record state =
  media_paths :: media_paths
  files :: "string \<rightharpoonup> contents"
  writes :: "(string \<times> contents) list"
  logging :: "log_record list"

definition info :: "string \<Rightarrow> state \<Rightarrow> state" where
  "info message s = s\<lparr>logging := logging s @ [(INFO, message)]\<rparr>"

definition write_file :: "string \<Rightarrow> contents \<Rightarrow> state \<Rightarrow> state" where
  "write_file file_path f s =
    s\<lparr>files := (files s)(file_path \<mapsto> f), writes := writes s @ [(file_path, f)]\<rparr>"

text \<open>The loop body for a note.\<close>

definition process_emex_note :: "('p, 't) env \<Rightarrow> Note \<Rightarrow> state \<Rightarrow> exn option \<times> state" where
  "process_emex_note env note s =
    (let s1 = info (''Note: '' @ format_value (title note)) s
     in case slugify env (title note) of
          Inl e \<Rightarrow> (Some e, s1)
        | Inr slug \<Rightarrow>
            (let file_path = path_join (output_path env) (slug @ extsep @ ''md'');
                 s2 = info (''Saving '' @ file_path) s1
             in (None, write_file file_path (Text (content note)) s2)))"

text \<open>The loop body for a resource: the file is saved under the name built from the
  digest and the extension, unless a file of that name exists, and the mapping records
  the path relative to the target directory.\<close>

definition process_emex_resource :: "('p, 't) env \<Rightarrow> Resource \<Rightarrow> state \<Rightarrow> exn option \<times> state" where
  "process_emex_resource env resource s =
    (let hex_digest = hexdigest (md5 env (data resource));
         mime_type = from_buffer env (data resource)
     in case EXTENSIONS_item mime_type of
          Inl e \<Rightarrow> (Some e, s)
        | Inr ext \<Rightarrow>
            (let file_name = hex_digest @ extsep @ ext;
                 file_path = path_join (path_join (output_path env) relative_media_path) file_name;
                 s1 = (if files s file_path = None
                       then write_file file_path (Bytes (data resource))
                              (info (''Saving '' @ file_path) s)
                       else info (''Already exists, skipping: '' @ file_path) s)
             in (None, s1\<lparr>media_paths :=
                   (media_paths s1)(hex_digest \<mapsto> path_join relative_media_path file_name)\<rparr>)))"

definition process_emex_body ::
  "('p, 't) env \<Rightarrow> Note option \<times> Resource option \<Rightarrow> state \<Rightarrow> exn option \<times> state" where
  "process_emex_body env y s =
    (case (case fst y of None \<Rightarrow> (None, s) | Some note \<Rightarrow> process_emex_note env note s) of
       (Some e, s') \<Rightarrow> (Some e, s')
     | (None, s') \<Rightarrow>
         (case snd y of None \<Rightarrow> (None, s') | Some resource \<Rightarrow> process_emex_resource env resource s'))"

text \<open>
  The \<^verbatim>\<open>for\<close> loop over the generator. The generator runs up to its next
  \<^verbatim>\<open>yield\<close>, the loop body runs on what was yielded, and the generator resumes: so
  for each event the generator's body comes first, with the mapping as the loop bodies
  before it have left it, and then the loop body if something was yielded.
\<close>

fun process_emex_loop ::
  "('p, 't) env \<Rightarrow> event list \<Rightarrow> locals \<Rightarrow> state \<Rightarrow> exn option \<times> locals \<times> state" where
  "process_emex_loop env [] l s = (None, l, s)"
| "process_emex_loop env (ev # evs) l s =
    (case iterate_emex env (media_paths s) ev l (logging s) of
       (Inl e, lg) \<Rightarrow> (Some e, l, s\<lparr>logging := lg\<rparr>)
     | (Inr (None, l'), lg) \<Rightarrow> process_emex_loop env evs l' (s\<lparr>logging := lg\<rparr>)
     | (Inr (Some y, l'), lg) \<Rightarrow>
         (case process_emex_body env y (s\<lparr>logging := lg\<rparr>) of
            (Some e, s') \<Rightarrow> (Some e, l', s')
          | (None, s') \<Rightarrow> process_emex_loop env evs l' s'))"

text \<open>A run on an archive, from the files that exist before it. (The creation of the
  two directories is not modelled: \<open>files\<close> holds regular files only.)\<close>

definition start :: "(string \<rightharpoonup> contents) \<Rightarrow> state" where
  "start fs =
    \<lparr>media_paths = Map.empty, files = fs, writes = [],
     logging = [(INFO, ''Creating target directories'' @
                  [char_of (0xE2 :: nat), char_of (0x80 :: nat), char_of (0xA6 :: nat)])]\<rparr>"

definition process_emex :: "('p, 't) env \<Rightarrow> event list \<Rightarrow> (string \<rightharpoonup> contents) \<Rightarrow> exn option \<times> state" where
  "process_emex env evs fs =
    (case process_emex_loop env evs unbound (start fs) of (r, l, s) \<Rightarrow> (r, s))"

subsection \<open>An environment to compute with\<close>

text \<open>
  Small stand-ins for the libraries, on which the functions above evaluate: a digest
  that is the length of the payload, a MIME detection that knows the empty payload and
  the first byte of a PNG file, a converter whose state is the text produced so far, and
  a tokeniser that knows three content strings.
\<close>

definition example_tokens :: "str_or_none \<Rightarrow> exn + string token list" where
  "example_tokens markup =
    (case markup of
       None \<Rightarrow> Inl (LibraryError ''feed'')
     | Some s \<Rightarrow>
         (if s = ''<en-note><en-todo checked=true/>Milk</en-note>'' then
            Inr [StartTag ''en-note'' [], StartTag ''en-todo'' [(''checked'', Some ''true'')],
                 EndTag ''en-todo'', OtherEvent ''Milk'', EndTag ''en-note'']
          else if s = ''<en-media hash=00000000000000000000000000000001 title=pic/>'' then
            Inr [StartTag ''en-media''
                   [(''hash'', Some ''00000000000000000000000000000001''), (''title'', Some ''pic'')],
                 EndTag ''en-media'']
          else if s = ''<b><en-media title=pic/></b>'' then
            Inr [StartTag ''b'' [], StartTag ''en-media'' [(''title'', Some ''pic'')],
                 EndTag ''en-media'', EndTag ''b'']
          else Inr [OtherEvent s]))"

definition example_env :: "(string, string) env" where
  "example_env =
    \<lparr>md5 = (\<lambda>b. of_nat (length b)),
     from_buffer = (\<lambda>b. if b = [] then ''application/x-empty''
                         else if hd b = 0x89 then ''image/png''
                         else ''application/octet-stream''),
     slugify = (\<lambda>t. case t of None \<Rightarrow> Inl (LibraryError ''slugify'') | Some s \<Rightarrow> Inr s),
     output_path = ''out'',
     tokens = example_tokens,
     parser_init = [],
     o_emit = (\<lambda>s p. p @ s),
     super_handle_starttag = (\<lambda>tag attrs p. Inr p),
     super_handle_endtag = (\<lambda>tag p. Inr p),
     super_handle_other = (\<lambda>t p. Inr (p @ t)),
     finish = (\<lambda>p. p)\<rparr>"

section \<open>Properties\<close>

subsection \<open>The state and the loops\<close>

lemma info_simps [simp]:
  "media_paths (info m s) = media_paths s"
  "files (info m s) = files s"
  "writes (info m s) = writes s"
  "logging (info m s) = logging s @ [(INFO, m)]"
  by (simp_all add: info_def)

lemma write_file_simps [simp]:
  "media_paths (write_file path f s) = media_paths s"
  "files (write_file path f s) = (files s)(path \<mapsto> f)"
  "writes (write_file path f s) = writes s @ [(path, f)]"
  "logging (write_file path f s) = logging s"
  by (simp_all add: write_file_def)

lemma feed_append:
  "feed env mp (xs @ ys) p lg =
    (case feed env mp xs p lg of
       (Inl e, lg') \<Rightarrow> (Inl e, lg')
     | (Inr p', lg') \<Rightarrow> feed env mp ys p' lg')"
  by (induction xs arbitrary: p lg) (auto split: prod.splits sum.splits)

lemma process_emex_loop_append:
  "process_emex_loop env (xs @ ys) l s =
    (case process_emex_loop env xs l s of
       (Some e, l', s') \<Rightarrow> (Some e, l', s')
     | (None, l', s') \<Rightarrow> process_emex_loop env ys l' s')"
  by (induction xs arbitrary: l s) (auto split: prod.splits sum.splits option.splits)

subsection \<open>Saving a resource\<close>

lemma process_emex_resource_unsupported:
  assumes "map_of EXTENSIONS (from_buffer env b) = None"
  shows "process_emex_resource env (Resource b) s = (Some (KeyError (Some (from_buffer env b))), s)"
  using assms by (simp add: process_emex_resource_def EXTENSIONS_item_def)

lemma process_emex_resource_supported:
  assumes "map_of EXTENSIONS (from_buffer env b) = Some ext"
  shows "process_emex_resource env (Resource b) s =
    (None,
     (if files s (output_path env @ ''/media/'' @ hexdigest (md5 env b) @ ''.'' @ ext) = None
      then write_file (output_path env @ ''/media/'' @ hexdigest (md5 env b) @ ''.'' @ ext) (Bytes b)
             (info (''Saving '' @ output_path env @ ''/media/'' @ hexdigest (md5 env b) @ ''.'' @ ext) s)
      else info (''Already exists, skipping: '' @ output_path env @ ''/media/''
                   @ hexdigest (md5 env b) @ ''.'' @ ext) s)
     \<lparr>media_paths :=
        (media_paths s)(hexdigest (md5 env b) \<mapsto> ''media/'' @ hexdigest (md5 env b) @ ''.'' @ ext)\<rparr>)"
  using assms
  by (simp add: process_emex_resource_def EXTENSIONS_item_def Let_def path_join_def
      relative_media_path_def extsep_def)

text \<open>
  Claim C4. A payload whose detected MIME type is not a key of \<open>EXTENSIONS\<close> makes the
  loop body for a resource raise \<open>KeyError\<close> with that MIME type (the design's
  \<^verbatim>\<open>UnsupportedMediaType\<close>), before anything is logged, written or recorded: the state is
  the one before it, so the mapping has gained no entry and no file was written. In the
  run, the \<^verbatim>\<open>resource\<close> element that closes with this payload ends the run there.
\<close>

theorem unsupported_media_type:
  assumes "map_of EXTENSIONS (from_buffer env b) = None"
  shows "process_emex_resource env (Resource b) s = (Some (KeyError (Some (from_buffer env b))), s)
    \<and> (data_var l = Some b \<longrightarrow>
         process_emex_loop env (End ''resource'' t # evs) l s
           = (Some (KeyError (Some (from_buffer env b))), l, s))"
  using assms
  by (simp add: process_emex_resource_unsupported process_emex_body_def)

theorem unsupported_media_type_witness:
  "map_of EXTENSIONS (from_buffer example_env [0]) = None
   \<and> process_emex_resource example_env (Resource [0]) (start Map.empty)
       = (Some (KeyError (Some ''application/octet-stream'')), start Map.empty)
   \<and> process_emex example_env [End ''data'' (Some ''AA==''), End ''resource'' None] Map.empty
       = (Some (KeyError (Some ''application/octet-stream'')), start Map.empty)"
  using unsupported_media_type [of example_env "[0]" "start Map.empty"
      "unbound\<lparr>data_var := Some [0]\<rparr>" None "[]"]
  by (simp add: example_env_def EXTENSIONS_def process_emex_def b64decode_def
      table_a2b_base64_def text_or_empty_def truthy_def format_value_def unbound_def start_def)

subsection \<open>The tags that ContentParser overrides\<close>

lemma dict_absent: "k \<notin> fst ` set attrs \<Longrightarrow> dict attrs k = None"
  by (simp add: dict_def map_of_eq_None_iff)

lemma dict_last:
  "k \<notin> fst ` set post \<Longrightarrow> dict (pre @ (k, v) # post) k = Some v"
  by (simp add: dict_def map_add_def map_of_eq_None_iff split: option.splits)
    (metis domI domIff map_of_eq_None_iff set_rev)

text \<open>
  Claim C9. The start tag \<^verbatim>\<open>en-crypt\<close> leaves the converter's state as it is (nothing
  is sent to the output method), hands one record of level \<open>ERROR\<close> to the logging
  module, and returns normally; its end tag does nothing. The events after it are then
  processed from the same converter state: the tag does not end the note's conversion.
\<close>

theorem en_crypt_continues:
  "handle_starttag env mp ''en-crypt'' attrs p lg
     = (Inr p, lg @ [(ERROR, ''<en-crypt> is not implemented.'')])
   \<and> handle_endtag env ''en-crypt'' p lg = (Inr p, lg)
   \<and> feed env mp (StartTag ''en-crypt'' attrs # ts) p lg
     = feed env mp ts p (lg @ [(ERROR, ''<en-crypt> is not implemented.'')])"
  by (simp add: handle_starttag_def handle_endtag_def)

lemma en_media_text_without_hash:
  "''hash'' \<notin> fst ` set attrs \<Longrightarrow> en_media_text mp attrs = Inl (KeyError (Some ''hash''))"
  by (simp add: en_media_text_def dict_item_def dict_absent)

lemma handle_fails_at:
  assumes "tokens env markup = Inr (pre @ t # post)"
    and "\<And>p lg. dispatch env mp t p lg = (Inl e, lg)"
  shows "\<exists>e' lg'. handle env mp markup lg = (Inl e', lg')"
    and "feed env mp pre (parser_init env) lg = (Inr p', lg') \<Longrightarrow> handle env mp markup lg = (Inl e, lg')"
proof -
  obtain r lg1 where pre: "feed env mp pre (parser_init env) lg = (r, lg1)"
    by (cases "feed env mp pre (parser_init env) lg")
  show "\<exists>e' lg'. handle env mp markup lg = (Inl e', lg')"
    using assms pre by (cases r) (simp_all add: handle_def feed_append)
  show "feed env mp pre (parser_init env) lg = (Inr p', lg') \<Longrightarrow> handle env mp markup lg = (Inl e, lg')"
    using assms by (simp add: handle_def feed_append)
qed

text \<open>
  Claim C10. A start tag \<^verbatim>\<open>en-media\<close> with no \<^verbatim>\<open>hash\<close> attribute raises
  \<open>KeyError\<close> with the key \<^verbatim>\<open>hash\<close>, whatever the mapping holds, and the output
  method is not called. A note whose content has such a tag is not converted: \<open>handle\<close>
  raises, and raises this very exception when no event before the tag raised.
\<close>

theorem en_media_without_hash:
  assumes "''hash'' \<notin> fst ` set attrs"
  shows "handle_starttag env mp ''en-media'' attrs p lg = (Inl (KeyError (Some ''hash'')), lg)
    \<and> (tokens env markup = Inr (pre @ StartTag ''en-media'' attrs # post) \<longrightarrow>
         (\<exists>e lg'. handle env mp markup lg = (Inl e, lg'))
         \<and> (\<forall>p' lg'. feed env mp pre (parser_init env) lg = (Inr p', lg') \<longrightarrow>
               handle env mp markup lg = (Inl (KeyError (Some ''hash'')), lg')))"
proof -
  have start: "\<And>p lg. handle_starttag env mp ''en-media'' attrs p lg = (Inl (KeyError (Some ''hash'')), lg)"
    using assms by (simp add: handle_starttag_def en_media_text_without_hash)
  then have "\<And>p lg. dispatch env mp (StartTag ''en-media'' attrs) p lg = (Inl (KeyError (Some ''hash'')), lg)"
    by simp
  from handle_fails_at [OF _ this] start show ?thesis
    by blast
qed

theorem en_media_without_hash_witness:
  "''hash'' \<notin> fst ` set [(''title'', Some ''pic'')]
   \<and> handle_starttag example_env (Map.empty(''00000000000000000000000000000001'' \<mapsto> ''media/00000000000000000000000000000001.png''))
        ''en-media'' [(''title'', Some ''pic'')] [] []
       = (Inl (KeyError (Some ''hash'')), [])
   \<and> handle example_env (Map.empty(''00000000000000000000000000000001'' \<mapsto> ''media/00000000000000000000000000000001.png''))
        (Some ''<b><en-media title=pic/></b>'') []
       = (Inl (KeyError (Some ''hash'')), [])"
  using en_media_without_hash [of "[(''title'', Some ''pic'')]" example_env
      "Map.empty(''00000000000000000000000000000001'' \<mapsto> ''media/00000000000000000000000000000001.png'')"
      "[]" "[]" "Some ''<b><en-media title=pic/></b>''" "[StartTag ''b'' []]"
      "[EndTag ''en-media'', EndTag ''b'']"]
  by (simp add: example_env_def example_tokens_def handle_starttag_def)

subsection \<open>What a run preserves\<close>

lemma process_emex_resource_cases:
  assumes "process_emex_resource env r s = (x, s')"
  obtains (unsupported) "map_of EXTENSIONS (from_buffer env (data r)) = None"
      "x = Some (KeyError (Some (from_buffer env (data r))))" "s' = s"
    | (supported) ext where "map_of EXTENSIONS (from_buffer env (data r)) = Some ext"
      "x = None"
      "media_paths s' = (media_paths s)(hexdigest (md5 env (data r))
          \<mapsto> ''media/'' @ hexdigest (md5 env (data r)) @ ''.'' @ ext)"
      "files s' = (if files s (output_path env @ ''/media/'' @ hexdigest (md5 env (data r)) @ ''.'' @ ext) = None
                   then (files s)(output_path env @ ''/media/'' @ hexdigest (md5 env (data r)) @ ''.'' @ ext \<mapsto> Bytes (data r))
                   else files s)"
      "writes s' = (if files s (output_path env @ ''/media/'' @ hexdigest (md5 env (data r)) @ ''.'' @ ext) = None
                   then writes s @ [(output_path env @ ''/media/'' @ hexdigest (md5 env (data r)) @ ''.'' @ ext, Bytes (data r))]
                   else writes s)"
proof (cases "map_of EXTENSIONS (from_buffer env (data r))")
  case None
  with assms process_emex_resource_unsupported [of env "data r" s] unsupported show ?thesis
    by simp
next
  case (Some ext)
  with assms process_emex_resource_supported [of env "data r" ext s] supported [of ext] show ?thesis
    by (auto split: if_splits)
qed

lemma process_emex_note_state:
  assumes "process_emex_note env n s = (x, s')"
  shows "media_paths s' = media_paths s" and "dom (files s) \<subseteq> dom (files s')"
  using assms
  by (auto simp: process_emex_note_def Let_def split: sum.splits)

lemma process_emex_loop_invariant:
  assumes run: "process_emex_loop env evs l s = (x, l', s')"
    and init: "P s"
    and res_step: "\<And>r s x s'. process_emex_resource env r s = (x, s') \<Longrightarrow> P s \<Longrightarrow> P s'"
    and note_step: "\<And>n s x s'. process_emex_note env n s = (x, s') \<Longrightarrow> P s \<Longrightarrow> P s'"
    and lg: "\<And>s lg. P s \<Longrightarrow> P (s\<lparr>logging := lg\<rparr>)"
  shows "P s'"
  using run init
proof (induction evs arbitrary: l s)
  case Nil
  then show ?case by simp
next
  case (Cons ev evs)
  have body: "P t'" if "process_emex_body env y t = (z, t')" "P t" for y t z t'
    using that res_step note_step
    by (cases y) (fastforce simp: process_emex_body_def split: option.splits prod.splits)
  from Cons.prems show ?case
    by (auto split: prod.splits sum.splits option.splits
        intro: lg body Cons.IH [OF _ lg] Cons.IH [OF _ body [OF _ lg]])
qed

lemma files_grow:
  assumes "process_emex_loop env evs l s = (x, l', s')" and "path \<in> dom (files s)"
  shows "path \<in> dom (files s')"
proof (rule process_emex_loop_invariant [OF assms(1), where P = "\<lambda>s. path \<in> dom (files s)"])
  show "path \<in> dom (files s)" by (fact assms(2))
next
  fix r s x s'
  assume "process_emex_resource env r s = (x, s')" "path \<in> dom (files s)"
  then show "path \<in> dom (files s')"
    by (cases rule: process_emex_resource_cases) (auto split: if_splits)
next
  fix n s x s'
  assume "process_emex_note env n s = (x, s')" "path \<in> dom (files s)"
  then show "path \<in> dom (files s')"
    using process_emex_note_state(2) by blast
qed simp

lemma media_paths_grow:
  assumes "process_emex_loop env evs l s = (x, l', s')" and "h \<in> dom (media_paths s)"
  shows "h \<in> dom (media_paths s')"
proof (rule process_emex_loop_invariant [OF assms(1), where P = "\<lambda>s. h \<in> dom (media_paths s)"])
  show "h \<in> dom (media_paths s)" by (fact assms(2))
next
  fix r s x s'
  assume "process_emex_resource env r s = (x, s')" "h \<in> dom (media_paths s)"
  then show "h \<in> dom (media_paths s')"
    by (cases rule: process_emex_resource_cases) auto
next
  fix n s x s'
  assume "process_emex_note env n s = (x, s')" "h \<in> dom (media_paths s)"
  then show "h \<in> dom (media_paths s')"
    by (simp add: process_emex_note_state(1))
qed simp

text \<open>
  Claim C2. When the loop body for a resource has succeeded on the payload \<open>b\<close>, and
  the run has gone on over any events without an exception, the loop body on \<open>b\<close>
  again succeeds, records for the digest of \<open>b\<close> the path that the first one recorded,
  and writes nothing: the list of writes and the files are the ones before it.
\<close>

theorem register_twice:
  assumes first: "process_emex_resource env (Resource b) s = (None, s1)"
    and between: "process_emex_loop env evs l s1 = (None, l', s2)"
  shows "\<exists>s3. process_emex_resource env (Resource b) s2 = (None, s3)
      \<and> media_paths s3 (hexdigest (md5 env b)) = media_paths s1 (hexdigest (md5 env b))
      \<and> hexdigest (md5 env b) \<in> dom (media_paths s1)
      \<and> writes s3 = writes s2 \<and> files s3 = files s2"
proof -
  from first obtain ext where ext: "map_of EXTENSIONS (from_buffer env b) = Some ext"
    and mp1: "media_paths s1 (hexdigest (md5 env b))
        = Some (''media/'' @ hexdigest (md5 env b) @ ''.'' @ ext)"
    and "output_path env @ ''/media/'' @ hexdigest (md5 env b) @ ''.'' @ ext \<in> dom (files s1)"
    by (cases rule: process_emex_resource_cases) (auto split: if_splits)
  with between have there: "output_path env @ ''/media/'' @ hexdigest (md5 env b) @ ''.'' @ ext \<in> dom (files s2)"
    by (rule_tac files_grow)
  obtain x s3 where second: "process_emex_resource env (Resource b) s2 = (x, s3)"
    by (cases "process_emex_resource env (Resource b) s2")
  from second ext there mp1 show ?thesis
    by (cases rule: process_emex_resource_cases) (use second in auto)
qed

text \<open>
  Claim C8. The outcome of the loop body for a resource on a payload \<open>b\<close> does not depend
  on the state it starts from: from two states it raises the same exception or succeeds in
  both, and on success the path recorded for the digest of \<open>b\<close> is the same, namely the
  media directory joined with the digest, a dot and the extension of the detected MIME
  type.
\<close>

theorem register_deterministic:
  assumes "process_emex_resource env (Resource b) s = (r, s1)"
    and "process_emex_resource env (Resource b) s' = (r', s1')"
  shows "r' = r
    \<and> (r = None \<longrightarrow>
         (\<exists>ext. EXTENSIONS_item (from_buffer env b) = Inr ext
            \<and> media_paths s1 (hexdigest (md5 env b))
                = Some (path_join relative_media_path (hexdigest (md5 env b) @ extsep @ ext))
            \<and> media_paths s1' (hexdigest (md5 env b)) = media_paths s1 (hexdigest (md5 env b))))"
  using assms
  by (cases "map_of EXTENSIONS (from_buffer env b)")
    (auto simp: process_emex_resource_unsupported process_emex_resource_supported
      EXTENSIONS_item_def path_join_def relative_media_path_def extsep_def)

lemma hexdigest_1: "hexdigest 1 = ''00000000000000000000000000000001''"
  by code_simp

lemma hexdigest_0: "hexdigest 0 = ''00000000000000000000000000000000''"
  by code_simp

lemma example_png:
  "process_emex_resource example_env (Resource [0x89]) s =
    (None,
     (if files s ''out/media/00000000000000000000000000000001.png'' = None
      then write_file ''out/media/00000000000000000000000000000001.png'' (Bytes [0x89])
             (info ''Saving out/media/00000000000000000000000000000001.png'' s)
      else info ''Already exists, skipping: out/media/00000000000000000000000000000001.png'' s)
     \<lparr>media_paths := (media_paths s)(''00000000000000000000000000000001''
         \<mapsto> ''media/00000000000000000000000000000001.png'')\<rparr>)"
proof -
  have "map_of EXTENSIONS (from_buffer example_env [0x89]) = Some ''png''"
    by (simp add: example_env_def EXTENSIONS_def)
  from process_emex_resource_supported [OF this, of s] show ?thesis
    by (simp add: example_env_def hexdigest_1)
qed

lemma example_empty:
  "process_emex_resource example_env (Resource []) s =
    (None,
     (if files s ''out/media/00000000000000000000000000000000.txt'' = None
      then write_file ''out/media/00000000000000000000000000000000.txt'' (Bytes [])
             (info ''Saving out/media/00000000000000000000000000000000.txt'' s)
      else info ''Already exists, skipping: out/media/00000000000000000000000000000000.txt'' s)
     \<lparr>media_paths := (media_paths s)(''00000000000000000000000000000000''
         \<mapsto> ''media/00000000000000000000000000000000.txt'')\<rparr>)"
proof -
  have "map_of EXTENSIONS (from_buffer example_env []) = Some ''txt''"
    by (simp add: example_env_def EXTENSIONS_def)
  from process_emex_resource_supported [OF this, of s] show ?thesis
    by (simp add: example_env_def hexdigest_0)
qed

lemma example_between:
  "process_emex_loop example_env [End ''data'' None, End ''resource'' None] unbound
     (snd (process_emex_resource example_env (Resource [0x89]) (start Map.empty)))
   = (None, unbound\<lparr>data_var := Some []\<rparr>,
      \<lparr>media_paths = Map.empty(''00000000000000000000000000000001''
           \<mapsto> ''media/00000000000000000000000000000001.png'',
         ''00000000000000000000000000000000'' \<mapsto> ''media/00000000000000000000000000000000.txt''),
       files = Map.empty(''out/media/00000000000000000000000000000001.png'' \<mapsto> Bytes [0x89],
         ''out/media/00000000000000000000000000000000.txt'' \<mapsto> Bytes []),
       writes = [(''out/media/00000000000000000000000000000001.png'', Bytes [0x89]),
                 (''out/media/00000000000000000000000000000000.txt'', Bytes [])],
       logging = logging (start Map.empty)
         @ [(INFO, ''Saving out/media/00000000000000000000000000000001.png''),
            (INFO, ''Saving out/media/00000000000000000000000000000000.txt'')]\<rparr>)"
  by (simp add: example_png example_empty process_emex_body_def b64decode_def text_or_empty_def
      truthy_def unbound_def start_def write_file_def info_def)

theorem register_twice_witness:
  "\<exists>s3. process_emex_resource example_env (Resource [0x89])
      \<lparr>media_paths = Map.empty(''00000000000000000000000000000001''
           \<mapsto> ''media/00000000000000000000000000000001.png'',
         ''00000000000000000000000000000000'' \<mapsto> ''media/00000000000000000000000000000000.txt''),
       files = Map.empty(''out/media/00000000000000000000000000000001.png'' \<mapsto> Bytes [0x89],
         ''out/media/00000000000000000000000000000000.txt'' \<mapsto> Bytes []),
       writes = [(''out/media/00000000000000000000000000000001.png'', Bytes [0x89]),
                 (''out/media/00000000000000000000000000000000.txt'', Bytes [])],
       logging = logging (start Map.empty)
         @ [(INFO, ''Saving out/media/00000000000000000000000000000001.png''),
            (INFO, ''Saving out/media/00000000000000000000000000000000.txt'')]\<rparr> = (None, s3)
     \<and> media_paths s3 ''00000000000000000000000000000001''
         = Some ''media/00000000000000000000000000000001.png''
     \<and> writes s3 = [(''out/media/00000000000000000000000000000001.png'', Bytes [0x89]),
                     (''out/media/00000000000000000000000000000000.txt'', Bytes [])]"
proof -
  let ?s1 = "snd (process_emex_resource example_env (Resource [0x89]) (start Map.empty))"
  have first: "process_emex_resource example_env (Resource [0x89]) (start Map.empty) = (None, ?s1)"
    by (simp add: example_png)
  have digest: "hexdigest (md5 example_env [0x89]) = ''00000000000000000000000000000001''"
    by (simp add: example_env_def hexdigest_1)
  have s1: "media_paths ?s1 ''00000000000000000000000000000001''
      = Some ''media/00000000000000000000000000000001.png''"
    by (simp add: example_png)
  from register_twice [OF first example_between] obtain s3 where
    "process_emex_resource example_env (Resource [0x89])
      \<lparr>media_paths = Map.empty(''00000000000000000000000000000001''
           \<mapsto> ''media/00000000000000000000000000000001.png'',
         ''00000000000000000000000000000000'' \<mapsto> ''media/00000000000000000000000000000000.txt''),
       files = Map.empty(''out/media/00000000000000000000000000000001.png'' \<mapsto> Bytes [0x89],
         ''out/media/00000000000000000000000000000000.txt'' \<mapsto> Bytes []),
       writes = [(''out/media/00000000000000000000000000000001.png'', Bytes [0x89]),
                 (''out/media/00000000000000000000000000000000.txt'', Bytes [])],
       logging = logging (start Map.empty)
         @ [(INFO, ''Saving out/media/00000000000000000000000000000001.png''),
            (INFO, ''Saving out/media/00000000000000000000000000000000.txt'')]\<rparr> = (None, s3)"
    and "media_paths s3 (hexdigest (md5 example_env [0x89]))
      = media_paths ?s1 (hexdigest (md5 example_env [0x89]))"
    and "writes s3 = [(''out/media/00000000000000000000000000000001.png'', Bytes [0x89]),
                 (''out/media/00000000000000000000000000000000.txt'', Bytes [])]"
    by (elim exE conjE) simp
  then show ?thesis
    by (intro exI [of _ s3] conjI) (simp_all add: digest s1)
qed

theorem register_deterministic_witness:
  "fst (process_emex_resource example_env (Resource [0x89]) (start Map.empty)) = None
   \<and> fst (process_emex_resource example_env (Resource [0x89])
        (start (Map.empty(''out/media/00000000000000000000000000000001.png'' \<mapsto> Text ''old'')))) = None
   \<and> media_paths (snd (process_emex_resource example_env (Resource [0x89])
        (start (Map.empty(''out/media/00000000000000000000000000000001.png'' \<mapsto> Text ''old'')))))
        ''00000000000000000000000000000001''
      = media_paths (snd (process_emex_resource example_env (Resource [0x89]) (start Map.empty)))
        ''00000000000000000000000000000001''"
  using register_deterministic [of example_env "[0x89]" "start Map.empty" None
      "snd (process_emex_resource example_env (Resource [0x89]) (start Map.empty))"
      "start (Map.empty(''out/media/00000000000000000000000000000001.png'' \<mapsto> Text ''old''))"
      None
      "snd (process_emex_resource example_env (Resource [0x89])
        (start (Map.empty(''out/media/00000000000000000000000000000001.png'' \<mapsto> Text ''old''))))"]
  by (simp add: example_png)

subsection \<open>References to media\<close>

lemma media_paths_registered:
  assumes run: "process_emex_loop env evs l s = (x, l', s')"
    and init: "media_paths s = Map.empty"
    and entry: "media_paths s' h = Some path"
  shows "\<exists>b ext. h = hexdigest (md5 env b) \<and> map_of EXTENSIONS (from_buffer env b) = Some ext
    \<and> path = ''media/'' @ h @ ''.'' @ ext \<and> output_path env @ ''/'' @ path \<in> dom (files s')"
proof -
  let ?P = "\<lambda>s. \<forall>h path. media_paths s h = Some path \<longrightarrow>
    (\<exists>b ext. h = hexdigest (md5 env b) \<and> map_of EXTENSIONS (from_buffer env b) = Some ext
      \<and> path = ''media/'' @ h @ ''.'' @ ext \<and> output_path env @ ''/'' @ path \<in> dom (files s))"
  have "?P s'"
  proof (rule process_emex_loop_invariant [OF run, where P = ?P])
    show "?P s" by (simp add: init)
  next
    fix r s x s'
    assume step: "process_emex_resource env r s = (x, s')" and P: "?P s"
    from step show "?P s'"
    proof (cases rule: process_emex_resource_cases)
      case unsupported
      with P show ?thesis by simp
    next
      case (supported ext)
      show ?thesis
      proof (intro allI impI)
        fix h path
        assume hp: "media_paths s' h = Some path"
        show "\<exists>b ext. h = hexdigest (md5 env b) \<and> map_of EXTENSIONS (from_buffer env b) = Some ext
          \<and> path = ''media/'' @ h @ ''.'' @ ext \<and> output_path env @ ''/'' @ path \<in> dom (files s')"
        proof (cases "h = hexdigest (md5 env (data r))")
          case True
          with hp supported show ?thesis
            by (intro exI [of _ "data r"] exI [of _ ext]) (auto split: if_splits)
        next
          case False
          with hp supported have "media_paths s h = Some path" by simp
          with P obtain b ext' where "h = hexdigest (md5 env b)"
            "map_of EXTENSIONS (from_buffer env b) = Some ext'"
            "path = ''media/'' @ h @ ''.'' @ ext'" "output_path env @ ''/'' @ path \<in> dom (files s)"
            by blast
          with supported show ?thesis
            by (intro exI [of _ b] exI [of _ ext']) (auto split: if_splits)
        qed
      qed
    qed
  next
    fix n s x s'
    assume step: "process_emex_note env n s = (x, s')" and P: "?P s"
    note same = process_emex_note_state [OF step]
    show "?P s'"
    proof (intro allI impI)
      fix h path
      assume "media_paths s' h = Some path"
      with same(1) have "media_paths s h = Some path" by simp
      with P obtain b ext where "h = hexdigest (md5 env b)"
        "map_of EXTENSIONS (from_buffer env b) = Some ext"
        "path = ''media/'' @ h @ ''.'' @ ext" "output_path env @ ''/'' @ path \<in> dom (files s)"
        by blast
      with same(2) show "\<exists>b ext. h = hexdigest (md5 env b)
          \<and> map_of EXTENSIONS (from_buffer env b) = Some ext
          \<and> path = ''media/'' @ h @ ''.'' @ ext \<and> output_path env @ ''/'' @ path \<in> dom (files s')"
        by blast
    qed
  qed simp
  with entry show ?thesis by blast
qed

lemma en_media_text_registered:
  assumes "dict attrs ''hash'' = Some (Some h)" and "mp h = Some path"
  shows "en_media_text mp attrs =
    Inr (''!['' @ (case dict attrs ''title'' of None \<Rightarrow> [] | Some v \<Rightarrow> format_value v)
          @ '']('' @ path @ '')'')"
  using assms
  by (simp add: en_media_text_def dict_item_def dict_get_def media_paths_item_def format_value_def
      split: option.splits)

text \<open>
  Claim C5. In a state that a run has reached, a start tag \<^verbatim>\<open>en-media\<close> whose
  \<^verbatim>\<open>hash\<close> is a key of the mapping sends to the output method exactly
  \<^verbatim>\<open>![title](path)\<close>: \<open>path\<close> is the mapping's value for the hash, and the title is the
  value of the \<^verbatim>\<open>title\<close> attribute, empty when the attribute is absent (an attribute
  written without a value has the value \<^verbatim>\<open>None\<close>, which the f-string renders as the
  word None). The path is the media directory joined with the hash, a dot and the extension
  of the detected MIME type of a payload with this digest, and a file exists at it under
  the target directory.
\<close>

theorem en_media_link:
  assumes run: "process_emex_loop env evs unbound (start fs) = (r, l, s)"
    and reg: "media_paths s h = Some path"
    and hash: "dict attrs ''hash'' = Some (Some h)"
  shows "handle_starttag env (media_paths s) ''en-media'' attrs p lg
      = (Inr (o_emit env
           (''!['' @ (case dict attrs ''title'' of None \<Rightarrow> [] | Some v \<Rightarrow> format_value v)
             @ '']('' @ path @ '')'') p), lg)
    \<and> (\<exists>b ext. h = hexdigest (md5 env b) \<and> EXTENSIONS_item (from_buffer env b) = Inr ext
          \<and> path = path_join relative_media_path (h @ extsep @ ext)
          \<and> path_join (output_path env) path \<in> dom (files s))"
proof -
  have "media_paths (start fs) = Map.empty"
    by (simp add: start_def)
  from media_paths_registered [OF run this reg]
  obtain b ext where "h = hexdigest (md5 env b)"
    "map_of EXTENSIONS (from_buffer env b) = Some ext"
    "path = ''media/'' @ h @ ''.'' @ ext" "output_path env @ ''/'' @ path \<in> dom (files s)"
    by blast
  then have "h = hexdigest (md5 env b) \<and> EXTENSIONS_item (from_buffer env b) = Inr ext
          \<and> path = path_join relative_media_path (h @ extsep @ ext)
          \<and> path_join (output_path env) path \<in> dom (files s)"
    by (simp add: EXTENSIONS_item_def path_join_def relative_media_path_def extsep_def)
  then have "\<exists>b ext. h = hexdigest (md5 env b) \<and> EXTENSIONS_item (from_buffer env b) = Inr ext
          \<and> path = path_join relative_media_path (h @ extsep @ ext)
          \<and> path_join (output_path env) path \<in> dom (files s)"
    by blast
  moreover have "handle_starttag env (media_paths s) ''en-media'' attrs p lg
      = (Inr (o_emit env
           (''!['' @ (case dict attrs ''title'' of None \<Rightarrow> [] | Some v \<Rightarrow> format_value v)
             @ '']('' @ path @ '')'') p), lg)"
    using en_media_text_registered [of attrs h "media_paths s" path] hash reg
    by (simp add: handle_starttag_def)
  ultimately show ?thesis by blast
qed

text \<open>
  Claim C1. Events arrive in the order in which the elements close. If the run gets past a
  \<^verbatim>\<open>resource\<close> element and the events \<open>pre2\<close> after it without an exception, then the
  payload \<open>d\<close> that the resource was yielded with has its digest among the keys of the
  mapping in the state \<open>s\<close> reached, a reference to that digest resolves there, and a
  \<^verbatim>\<open>note\<close> element closing next is converted from exactly this state: the generator's
  body for it reads the mapping of \<open>s\<close>.
\<close>

theorem resources_registered_before_note:
  assumes "process_emex_loop env (pre1 @ End ''resource'' t # pre2) l0 s0 = (None, l, s)"
  shows "\<exists>l1 s1 d. process_emex_loop env pre1 l0 s0 = (None, l1, s1) \<and> data_var l1 = Some d
    \<and> hexdigest (md5 env d) \<in> dom (media_paths s)
    \<and> (\<forall>attrs p lg. dict attrs ''hash'' = Some (Some (hexdigest (md5 env d))) \<longrightarrow>
          (\<exists>link. handle_starttag env (media_paths s) ''en-media'' attrs p lg
             = (Inr (o_emit env link p), lg)))
    \<and> process_emex_loop env (pre1 @ End ''resource'' t # pre2 @ End ''note'' t' # post) l0 s0
        = process_emex_loop env (End ''note'' t' # post) l s"
proof -
  obtain x l1 s1 where pre1: "process_emex_loop env pre1 l0 s0 = (x, l1, s1)"
    by (cases "process_emex_loop env pre1 l0 s0")
  with assms have x: "x = None"
    and rest: "process_emex_loop env (End ''resource'' t # pre2) l1 s1 = (None, l, s)"
    by (auto simp: process_emex_loop_append split: option.splits)
  from rest obtain d s2 where d: "data_var l1 = Some d"
    and reg: "process_emex_resource env (Resource d) s1 = (None, s2)"
    and pre2: "process_emex_loop env pre2 l1 s2 = (None, l, s)"
    by (auto simp: process_emex_body_def split: option.splits prod.splits)
  from reg have "hexdigest (md5 env d) \<in> dom (media_paths s2)"
    by (cases rule: process_emex_resource_cases) auto
  with pre2 have dom: "hexdigest (md5 env d) \<in> dom (media_paths s)"
    by (rule media_paths_grow)
  have link: "\<exists>link. handle_starttag env (media_paths s) ''en-media'' attrs p lg
      = (Inr (o_emit env link p), lg)"
    if "dict attrs ''hash'' = Some (Some (hexdigest (md5 env d)))" for attrs p lg
    using dom that by (auto simp: handle_starttag_def en_media_text_registered)
  have "process_emex_loop env (pre1 @ End ''resource'' t # pre2 @ End ''note'' t' # post) l0 s0
      = process_emex_loop env (End ''note'' t' # post) l s"
    using assms process_emex_loop_append [of env "pre1 @ End ''resource'' t # pre2" "End ''note'' t' # post" l0 s0]
    by simp
  with pre1 x d dom link show ?thesis
    by blast
qed

subsection \<open>References that do not resolve\<close>

lemma en_media_text_unknown:
  assumes "dict attrs ''hash'' = Some h" and "h \<notin> Some ` dom mp"
  shows "en_media_text mp attrs = Inl (KeyError h)"
proof (cases h)
  case None
  with assms show ?thesis
    by (simp add: en_media_text_def dict_item_def media_paths_item_def)
next
  case (Some k)
  with assms have "mp k = None" by auto
  with assms Some show ?thesis
    by (simp add: en_media_text_def dict_item_def media_paths_item_def)
qed

text \<open>
  Claim C3. A start tag \<^verbatim>\<open>en-media\<close> whose \<^verbatim>\<open>hash\<close> value (a string, or \<^verbatim>\<open>None\<close>
  for an attribute written without a value) is not a key of the mapping raises \<open>KeyError\<close>
  with that value (the design's \<^verbatim>\<open>UnknownResourceReference\<close>); no path is looked up in
  its place and the output method is not called. A note whose content has such a tag is
  not converted: \<open>handle\<close> raises, with this exception when no event before the tag
  raised, and the run ends at the note with nothing written for it.
\<close>

theorem unknown_resource_reference:
  assumes "dict attrs ''hash'' = Some h" and "h \<notin> Some ` dom mp"
  shows "handle_starttag env mp ''en-media'' attrs p lg = (Inl (KeyError h), lg)
    \<and> (tokens env markup = Inr (pre @ StartTag ''en-media'' attrs # post) \<longrightarrow>
         (\<exists>e lg'. handle env mp markup lg = (Inl e, lg'))
         \<and> (\<forall>p' lg'. feed env mp pre (parser_init env) lg = (Inr p', lg') \<longrightarrow>
               handle env mp markup lg = (Inl (KeyError h), lg'))
         \<and> (mp = media_paths s \<and> lg = logging s \<and> title_var l \<noteq> None
               \<and> content_var l = Some markup \<longrightarrow>
               (\<exists>e lg'. process_emex_loop env (End ''note'' t # evs) l s
                  = (Some e, l, s\<lparr>logging := lg'\<rparr>))))"
proof -
  have start: "\<And>p lg. handle_starttag env mp ''en-media'' attrs p lg = (Inl (KeyError h), lg)"
    using assms by (simp add: handle_starttag_def en_media_text_unknown)
  then have disp: "\<And>p lg. dispatch env mp (StartTag ''en-media'' attrs) p lg = (Inl (KeyError h), lg)"
    by simp
  have run: "\<exists>e lg'. process_emex_loop env (End ''note'' t # evs) l s = (Some e, l, s\<lparr>logging := lg'\<rparr>)"
    if toks: "tokens env markup = Inr (pre @ StartTag ''en-media'' attrs # post)"
      and eqs: "mp = media_paths s" "lg = logging s"
      and vars: "title_var l \<noteq> None" "content_var l = Some markup"
  proof -
    from handle_fails_at(1) [OF toks disp, of lg] eqs obtain e lg'
      where "handle env (media_paths s) markup (logging s) = (Inl e, lg')"
      by auto
    with vars show ?thesis by auto
  qed
  from handle_fails_at [OF _ disp] start run show ?thesis
    by blast
qed

theorem unknown_resource_reference_witness:
  "dict [(''hash'', Some ''00000000000000000000000000000001''), (''title'', Some ''pic'')] ''hash''
     = Some (Some ''00000000000000000000000000000001'')
   \<and> handle_starttag example_env Map.empty ''en-media''
        [(''hash'', Some ''00000000000000000000000000000001''), (''title'', Some ''pic'')] [] []
       = (Inl (KeyError (Some ''00000000000000000000000000000001'')), [])
   \<and> handle example_env Map.empty
        (Some ''<en-media hash=00000000000000000000000000000001 title=pic/>'') []
       = (Inl (KeyError (Some ''00000000000000000000000000000001'')), [])
   \<and> process_emex example_env
        [End ''title'' (Some ''Cat''),
         End ''content'' (Some ''<en-media hash=00000000000000000000000000000001 title=pic/>''),
         End ''note'' None] Map.empty
       = (Some (KeyError (Some ''00000000000000000000000000000001'')), start Map.empty)"
  using unknown_resource_reference
    [of "[(''hash'', Some ''00000000000000000000000000000001''), (''title'', Some ''pic'')]"
      "Some ''00000000000000000000000000000001''" Map.empty example_env "[]" "[]"
      "Some ''<en-media hash=00000000000000000000000000000001 title=pic/>''" "[]"
      "[EndTag ''en-media'']"]
  by (simp add: example_env_def example_tokens_def dict_def process_emex_def handle_def
      handle_starttag_def en_media_text_def dict_item_def dict_get_def media_paths_item_def
      start_def unbound_def)

text \<open>
  Claim C6 says \<^verbatim>\<open>[x]\<close> whenever the \<^verbatim>\<open>checked\<close> attribute is present. The code tests
  the truth value of \<^verbatim>\<open>attrs_dict.get('checked')\<close>: an attribute written without a
  value, or with the empty string as its value, is present and gives \<^verbatim>\<open>[ ]\<close>.
\<close>

theorem en_todo_checked_counterexample:
  "''checked'' \<in> fst ` set [(''checked'', None :: str_or_none)]
   \<and> handle_starttag example_env Map.empty ''en-todo'' [(''checked'', None)] [] [] = (Inr ''[ ]'', [])
   \<and> ''checked'' \<in> fst ` set [(''checked'', Some [])]
   \<and> handle_starttag example_env Map.empty ''en-todo'' [(''checked'', Some [])] [] [] = (Inr ''[ ]'', [])"
  by (simp add: handle_starttag_def example_env_def dict_def dict_get_def truthy_def)

text \<open>
  Claim C6, amended. The start tag \<^verbatim>\<open>en-todo\<close> sends to the output method \<^verbatim>\<open>[x]\<close>
  when the last \<^verbatim>\<open>checked\<close> attribute of the tag has a non-empty value, and \<^verbatim>\<open>[ ]\<close>
  when the attribute is absent or its last occurrence has no value or the empty one,
  whatever the mapping, the converter's state and the log are.
\<close>

theorem en_todo_marker:
  "(''checked'' \<notin> fst ` set attrs \<longrightarrow>
      handle_starttag env mp ''en-todo'' attrs p lg = (Inr (o_emit env ''[ ]'' p), lg))
   \<and> (''checked'' \<notin> fst ` set post \<longrightarrow>
      handle_starttag env mp ''en-todo'' (pre @ (''checked'', v) # post) p lg
        = (Inr (o_emit env (if v = None \<or> v = Some [] then ''[ ]'' else ''[x]'') p), lg))"
  by (auto simp: handle_starttag_def dict_absent dict_last dict_get_def truthy_def
      split: option.splits)

theorem en_todo_marker_witness:
  "''checked'' \<notin> fst ` set [(''class'', Some ''a'')]
   \<and> handle_starttag example_env Map.empty ''en-todo'' [(''class'', Some ''a'')] ''Milk'' []
       = (Inr ''Milk[ ]'', [])
   \<and> ''checked'' \<notin> fst ` set [(''class'', Some ''a'')]
   \<and> handle_starttag example_env Map.empty ''en-todo''
        ([(''checked'', Some '''')] @ (''checked'', Some ''true'') # [(''class'', Some ''a'')]) ''Milk'' []
       = (Inr ''Milk[x]'', [])"
  using en_todo_marker [of "[(''class'', Some ''a'')]" example_env Map.empty "''Milk''" "[]"
      "[(''class'', Some ''a'')]" "[(''checked'', Some '''')]" "Some ''true''"]
  by (simp add: example_env_def)

subsection \<open>Decoding the payload\<close>

lemma a2b_base64_quads:
  assumes "CHR ''='' \<notin> set cs" and "quad_pos < 4"
  shows "(a2b_base64 cs quad_pos leftchar pads bin_data = Inl BinasciiError)
    \<longleftrightarrow> (quad_pos + length (filter (\<lambda>c. table_a2b_base64 c \<noteq> None) cs)) mod 4 \<noteq> 0"
  using assms
proof (induction cs arbitrary: quad_pos leftchar pads bin_data)
  case Nil
  then show ?case by simp
next
  case (Cons c cs)
  then have c: "c \<noteq> CHR ''=''" and cs: "CHR ''='' \<notin> set cs"
    by auto
  show ?case
  proof (cases "table_a2b_base64 c")
    case None
    with c Cons.IH [OF cs Cons.prems(2)] show ?thesis
      by simp
  next
    case (Some v)
    from Cons.prems(2) consider "quad_pos = 0" | "quad_pos = 1" | "quad_pos = 2" | "quad_pos = 3"
      by linarith
    then show ?thesis
    proof cases
      case 1
      with c Some Cons.IH [OF cs, of 1] show ?thesis by simp
    next
      case 2
      with c Some Cons.IH [OF cs, of 2] show ?thesis by simp
    next
      case 3
      with c Some Cons.IH [OF cs, of 3] show ?thesis by simp
    next
      case 4
      with c Some Cons.IH [OF cs, of 0] show ?thesis by simp
    qed
  qed
qed

lemma b64decode_incomplete_quad:
  assumes "CHR ''='' \<notin> set s" and "\<forall>c \<in> set s. (of_char c :: nat) < 128"
    and "length (filter (\<lambda>c. table_a2b_base64 c \<noteq> None) s) mod 4 \<noteq> 0"
  shows "b64decode s = Inl BinasciiError"
proof -
  from assms(2) have "\<not> (\<exists>c \<in> set s. (of_char c :: nat) \<ge> 128)"
    by (simp add: not_le)
  with a2b_base64_quads [OF assms(1), of 0 0 0 "[]"] assms(3) show ?thesis
    by (simp add: b64decode_def)
qed

text \<open>
  Claim C7 says that text which is not valid Base64 counts as an empty payload and never
  fails the run. The text \<^verbatim>\<open>ab\<close> is an incomplete quad: \<^verbatim>\<open>b64decode\<close> raises and the
  run ends. The text \<^verbatim>\<open>YQ==!\<close> has a character outside the alphabet: it is skipped and
  the payload is the one byte that the rest encodes, not the empty one.
\<close>

theorem malformed_base64_counterexample:
  "process_emex example_env [End ''data'' (Some ''ab'')] Map.empty
     = (Some BinasciiError, start Map.empty)
   \<and> iterate_emex example_env Map.empty (End ''data'' (Some ''YQ==!'')) unbound []
     = (Inr (None, unbound\<lparr>data_var := Some [0x61]\<rparr>), [])"
  by (simp add: process_emex_def b64decode_def table_a2b_base64_def text_or_empty_def truthy_def
      format_value_def start_def)

text \<open>
  Claim C7, amended. For a \<^verbatim>\<open>data\<close> element, missing or empty text gives the empty
  payload. Any other text is handed to \<^verbatim>\<open>b64decode\<close> as it is: what that returns is the
  payload, and when it raises, the exception leaves the generator and ends the run, the
  state being the one before the element. It raises, for one, on every ASCII text without
  padding in which the characters of the alphabet are not a multiple of four in number.
\<close>

theorem data_element_decoding:
  "((text = None \<or> text = Some []) \<longrightarrow>
      iterate_emex env mp (End ''data'' text) l lg = (Inr (None, l\<lparr>data_var := Some []\<rparr>), lg))
   \<and> (b64decode s = Inr d \<longrightarrow>
      iterate_emex env mp (End ''data'' (Some s)) l lg = (Inr (None, l\<lparr>data_var := Some d\<rparr>), lg))
   \<and> (b64decode s = Inl e \<longrightarrow>
      iterate_emex env mp (End ''data'' (Some s)) l lg = (Inl e, lg)
      \<and> process_emex_loop env (End ''data'' (Some s) # evs) l st = (Some e, l, st))
   \<and> (CHR ''='' \<notin> set s \<and> (\<forall>c \<in> set s. (of_char c :: nat) < 128)
        \<and> length (filter (\<lambda>c. table_a2b_base64 c \<noteq> None) s) mod 4 \<noteq> 0 \<longrightarrow>
      process_emex_loop env (End ''data'' (Some s) # evs) l st = (Some BinasciiError, l, st))"
proof -
  have empty: "b64decode [] = Inr []"
    by (simp add: b64decode_def)
  have some: "text_or_empty (Some s) = s" for s
    by (simp add: text_or_empty_def truthy_def format_value_def)
  have none: "text_or_empty None = []"
    by (simp add: text_or_empty_def truthy_def)
  have quad: "process_emex_loop env (End ''data'' (Some s) # evs) l st = (Some BinasciiError, l, st)"
    if "CHR ''='' \<notin> set s" "\<forall>c \<in> set s. (of_char c :: nat) < 128"
      "length (filter (\<lambda>c. table_a2b_base64 c \<noteq> None) s) mod 4 \<noteq> 0"
    using b64decode_incomplete_quad [OF that] by (simp add: some)
  have rest: "((text = None \<or> text = Some []) \<longrightarrow>
      iterate_emex env mp (End ''data'' text) l lg = (Inr (None, l\<lparr>data_var := Some []\<rparr>), lg))
   \<and> (b64decode s = Inr d \<longrightarrow>
      iterate_emex env mp (End ''data'' (Some s)) l lg = (Inr (None, l\<lparr>data_var := Some d\<rparr>), lg))
   \<and> (b64decode s = Inl e \<longrightarrow>
      iterate_emex env mp (End ''data'' (Some s)) l lg = (Inl e, lg)
      \<and> process_emex_loop env (End ''data'' (Some s) # evs) l st = (Some e, l, st))"
    by (auto simp: empty some none)
  from rest quad show ?thesis
    by blast
qed

theorem data_element_decoding_witness:
  "iterate_emex example_env Map.empty (End ''data'' None) unbound []
     = (Inr (None, unbound\<lparr>data_var := Some []\<rparr>), [])
   \<and> b64decode ''iQ=='' = Inr [0x89]
   \<and> iterate_emex example_env Map.empty (End ''data'' (Some ''iQ=='')) unbound []
     = (Inr (None, unbound\<lparr>data_var := Some [0x89]\<rparr>), [])
   \<and> b64decode ''iQ'' = Inl BinasciiError
   \<and> CHR ''='' \<notin> set ''iQ''
   \<and> length (filter (\<lambda>c. table_a2b_base64 c \<noteq> None) ''iQ'') mod 4 = 2
   \<and> process_emex_loop example_env [End ''data'' (Some ''iQ''), End ''resource'' None] unbound
        (start Map.empty)
     = (Some BinasciiError, unbound, start Map.empty)"
proof -
  have quad: "CHR ''='' \<notin> set ''iQ''"
    "length (filter (\<lambda>c. table_a2b_base64 c \<noteq> None) ''iQ'') mod 4 = 2"
    by (simp_all add: table_a2b_base64_def)
  have ok: "b64decode ''iQ=='' = Inr [0x89]"
    by (simp add: b64decode_def table_a2b_base64_def)
  have bad: "b64decode ''iQ'' = Inl BinasciiError"
    by (simp add: b64decode_def table_a2b_base64_def)
  from ok bad quad
    data_element_decoding [of None example_env Map.empty unbound "[]" "''iQ==''" "[0x89]"
      BinasciiError "[]" "start Map.empty"]
    data_element_decoding [of None example_env Map.empty unbound "[]" "''iQ''" "[]"
      BinasciiError "[End ''resource'' None]" "start Map.empty"]
  show ?thesis
    by simp
qed

subsection \<open>A run on a small archive\<close>

lemma example_data: "b64decode ''iQ=='' = Inr [0x89]"
  by (simp add: b64decode_def table_a2b_base64_def)

lemma example_run:
  "process_emex_loop example_env
     ([End ''data'' (Some ''iQ=='')] @ End ''resource'' None
        # [End ''title'' (Some ''Cat''),
           End ''content'' (Some ''<en-media hash=00000000000000000000000000000001 title=pic/>'')])
     unbound (start Map.empty)
   = (None,
      \<lparr>title_var = Some (Some ''Cat''),
       content_var = Some (Some ''<en-media hash=00000000000000000000000000000001 title=pic/>''),
       data_var = Some [0x89]\<rparr>,
      \<lparr>media_paths = Map.empty(''00000000000000000000000000000001''
         \<mapsto> ''media/00000000000000000000000000000001.png''),
       files = Map.empty(''out/media/00000000000000000000000000000001.png'' \<mapsto> Bytes [0x89]),
       writes = [(''out/media/00000000000000000000000000000001.png'', Bytes [0x89])],
       logging = logging (start Map.empty)
         @ [(INFO, ''Saving out/media/00000000000000000000000000000001.png'')]\<rparr>)"
  by (simp add: example_data example_png process_emex_body_def text_or_empty_def truthy_def
      format_value_def unbound_def start_def write_file_def info_def)

theorem resources_registered_before_note_witness:
  "process_emex_loop example_env
     ([End ''data'' (Some ''iQ=='')] @ End ''resource'' None
        # [End ''title'' (Some ''Cat''),
           End ''content'' (Some ''<en-media hash=00000000000000000000000000000001 title=pic/>'')])
     unbound (start Map.empty)
   = (None,
      \<lparr>title_var = Some (Some ''Cat''),
       content_var = Some (Some ''<en-media hash=00000000000000000000000000000001 title=pic/>''),
       data_var = Some [0x89]\<rparr>,
      \<lparr>media_paths = Map.empty(''00000000000000000000000000000001''
         \<mapsto> ''media/00000000000000000000000000000001.png''),
       files = Map.empty(''out/media/00000000000000000000000000000001.png'' \<mapsto> Bytes [0x89]),
       writes = [(''out/media/00000000000000000000000000000001.png'', Bytes [0x89])],
       logging = logging (start Map.empty)
         @ [(INFO, ''Saving out/media/00000000000000000000000000000001.png'')]\<rparr>)
   \<and> hexdigest (md5 example_env [0x89]) = ''00000000000000000000000000000001''
   \<and> writes (snd (process_emex example_env
        [End ''data'' (Some ''iQ==''), End ''resource'' None, End ''title'' (Some ''Cat''),
         End ''content'' (Some ''<en-media hash=00000000000000000000000000000001 title=pic/>''),
         End ''note'' None] Map.empty))
     = [(''out/media/00000000000000000000000000000001.png'', Bytes [0x89]),
        (''out/Cat.md'', Text ''![pic](media/00000000000000000000000000000001.png)'')]"
proof -
  have digest: "hexdigest (md5 example_env [0x89]) = ''00000000000000000000000000000001''"
    by (simp add: example_env_def hexdigest_1)
  have note_step: "writes (snd (snd (process_emex_loop example_env [End ''note'' None]
      \<lparr>title_var = Some (Some ''Cat''),
       content_var = Some (Some ''<en-media hash=00000000000000000000000000000001 title=pic/>''),
       data_var = Some [0x89]\<rparr>
      \<lparr>media_paths = Map.empty(''00000000000000000000000000000001''
         \<mapsto> ''media/00000000000000000000000000000001.png''),
       files = Map.empty(''out/media/00000000000000000000000000000001.png'' \<mapsto> Bytes [0x89]),
       writes = [(''out/media/00000000000000000000000000000001.png'', Bytes [0x89])],
       logging = logging (start Map.empty)
         @ [(INFO, ''Saving out/media/00000000000000000000000000000001.png'')]\<rparr>)))
     = [(''out/media/00000000000000000000000000000001.png'', Bytes [0x89]),
        (''out/Cat.md'', Text ''![pic](media/00000000000000000000000000000001.png)'')]"
    by (simp add: handle_def handle_starttag_def handle_endtag_def en_media_text_def dict_def
        dict_get_def dict_item_def media_paths_item_def format_value_def example_env_def
        example_tokens_def process_emex_body_def process_emex_note_def path_join_def extsep_def
        Let_def)
  from resources_registered_before_note [OF example_run, of None "[]"]
  have "process_emex_loop example_env
     ([End ''data'' (Some ''iQ=='')] @ End ''resource'' None
        # [End ''title'' (Some ''Cat''),
           End ''content'' (Some ''<en-media hash=00000000000000000000000000000001 title=pic/>'')]
        @ End ''note'' None # [])
     unbound (start Map.empty)
   = process_emex_loop example_env [End ''note'' None]
      \<lparr>title_var = Some (Some ''Cat''),
       content_var = Some (Some ''<en-media hash=00000000000000000000000000000001 title=pic/>''),
       data_var = Some [0x89]\<rparr>
      \<lparr>media_paths = Map.empty(''00000000000000000000000000000001''
         \<mapsto> ''media/00000000000000000000000000000001.png''),
       files = Map.empty(''out/media/00000000000000000000000000000001.png'' \<mapsto> Bytes [0x89]),
       writes = [(''out/media/00000000000000000000000000000001.png'', Bytes [0x89])],
       logging = logging (start Map.empty)
         @ [(INFO, ''Saving out/media/00000000000000000000000000000001.png'')]\<rparr>"
    by blast
  then have full: "process_emex_loop example_env
     [End ''data'' (Some ''iQ==''), End ''resource'' None, End ''title'' (Some ''Cat''),
      End ''content'' (Some ''<en-media hash=00000000000000000000000000000001 title=pic/>''),
      End ''note'' None]
     unbound (start Map.empty)
   = process_emex_loop example_env [End ''note'' None]
      \<lparr>title_var = Some (Some ''Cat''),
       content_var = Some (Some ''<en-media hash=00000000000000000000000000000001 title=pic/>''),
       data_var = Some [0x89]\<rparr>
      \<lparr>media_paths = Map.empty(''00000000000000000000000000000001''
         \<mapsto> ''media/00000000000000000000000000000001.png''),
       files = Map.empty(''out/media/00000000000000000000000000000001.png'' \<mapsto> Bytes [0x89]),
       writes = [(''out/media/00000000000000000000000000000001.png'', Bytes [0x89])],
       logging = logging (start Map.empty)
         @ [(INFO, ''Saving out/media/00000000000000000000000000000001.png'')]\<rparr>"
    by (simp only: append.simps)
  show ?thesis
  proof (intro conjI)
    show "writes (snd (process_emex example_env
        [End ''data'' (Some ''iQ==''), End ''resource'' None, End ''title'' (Some ''Cat''),
         End ''content'' (Some ''<en-media hash=00000000000000000000000000000001 title=pic/>''),
         End ''note'' None] Map.empty))
     = [(''out/media/00000000000000000000000000000001.png'', Bytes [0x89]),
        (''out/Cat.md'', Text ''![pic](media/00000000000000000000000000000001.png)'')]"
      unfolding process_emex_def full using note_step
      by (simp only: case_prod_beta snd_conv)
  qed (fact example_run digest)+
qed

theorem en_media_link_witness:
  "handle_starttag example_env
     (Map.empty(''00000000000000000000000000000001'' \<mapsto> ''media/00000000000000000000000000000001.png''))
     ''en-media'' [(''hash'', Some ''00000000000000000000000000000001''), (''title'', Some ''pic'')] [] []
   = (Inr ''![pic](media/00000000000000000000000000000001.png)'', [])
   \<and> EXTENSIONS_item (from_buffer example_env [0x89]) = Inr ''png''
   \<and> path_join relative_media_path (''00000000000000000000000000000001'' @ extsep @ ''png'')
     = ''media/00000000000000000000000000000001.png''"
proof -
  have hash: "dict [(''hash'', Some ''00000000000000000000000000000001''), (''title'', Some ''pic'')] ''hash''
      = Some (Some ''00000000000000000000000000000001'')"
    by (simp add: dict_def)
  have reg: "media_paths
      \<lparr>media_paths = Map.empty(''00000000000000000000000000000001''
         \<mapsto> ''media/00000000000000000000000000000001.png''),
       files = Map.empty(''out/media/00000000000000000000000000000001.png'' \<mapsto> Bytes [0x89]),
       writes = [(''out/media/00000000000000000000000000000001.png'', Bytes [0x89])],
       logging = logging (start Map.empty)
         @ [(INFO, ''Saving out/media/00000000000000000000000000000001.png'')]\<rparr>
      ''00000000000000000000000000000001'' = Some ''media/00000000000000000000000000000001.png''"
    by simp
  from en_media_link [OF example_run reg hash, of "[]" "[]"] show ?thesis
    by (simp add: example_env_def dict_def format_value_def EXTENSIONS_item_def EXTENSIONS_def
        path_join_def relative_media_path_def extsep_def)
qed

end
